theory Spec2Isabelle
  imports Complex_Main
begin

section \<open>The AgentPass Python SDK: the REST client of \<^verbatim>\<open>agentpass/client.py\<close>\<close>

text \<open>
  The client is one class, \<^verbatim>\<open>AgentPassClient\<close>, with two fields (\<^verbatim>\<open>base_url\<close>,
  \<^verbatim>\<open>token\<close>), two helpers (\<^verbatim>\<open>_headers\<close>, \<^verbatim>\<open>_request\<close>) and nine public
  methods, each of which issues one HTTP request through \<^verbatim>\<open>requests.request\<close>.
  The embedding keeps that shape: a record for the object, a record for the request handed
  to the transport, a record for what the code reads off the response, exceptions as the
  left summand of a sum type, and explicit state passing for the two effects of a call
  (the assignment to \<^verbatim>\<open>self.token\<close> and the request that leaves the process).
\<close>

subsection \<open>Python values\<close>

text \<open>
  Python is dynamically typed: whatever \<^verbatim>\<open>resp.json()\<close> decodes is stored and passed
  on as it is, so the values the server sends are modelled as the values the \<^verbatim>\<open>json\<close>
  module produces. \<open>PNone\<close> is \<^verbatim>\<open>None\<close>; a \<^verbatim>\<open>dict\<close> is the list of its items in
  insertion order (its keys are strings); a \<^verbatim>\<open>float\<close> is the number it denotes.
\<close>

datatype pyval =
    PNone
  | PBool bool
  | PInt int
  | PFloat real
  | PStr string
  | PList "pyval list"
  | PDict "(string \<times> pyval) list"

text \<open>The exceptions a call can end with.\<close>

datatype transport_failure = ConnectionFailed | TimedOut

datatype error =
    AgentPassError string "int option"
  | KeyError string
  | TypeError
  | AttributeError
  | JSONDecodeError
  | TransportError transport_failure

text \<open>Truth value testing (\<^verbatim>\<open>if x:\<close>): \<^verbatim>\<open>None\<close>, \<^verbatim>\<open>False\<close>, zero and the empty
  string, list and dict are false, every other value is true.\<close>

fun truthy :: "pyval \<Rightarrow> bool" where
  "truthy PNone = False"
| "truthy (PBool b) = b"
| "truthy (PInt i) = (i \<noteq> 0)"
| "truthy (PFloat x) = (x \<noteq> 0)"
| "truthy (PStr s) = (s \<noteq> [])"
| "truthy (PList xs) = (xs \<noteq> [])"
| "truthy (PDict kvs) = (kvs \<noteq> [])"

text \<open>
  \<^verbatim>\<open>str(x)\<close>, which is also what an f-string field \<^verbatim>\<open>{x}\<close> inserts: a \<^verbatim>\<open>str\<close> is
  itself; for \<^verbatim>\<open>None\<close>, a bool, a number, a list or a dict it is the interpreter's
  \<^verbatim>\<open>repr\<close>, which is not part of this repository and is taken as the parameter \<open>rpr\<close>.
\<close>

fun py_str :: "(pyval \<Rightarrow> string) \<Rightarrow> pyval \<Rightarrow> string" where
  "py_str rpr (PStr s) = s"
| "py_str rpr v = rpr v"

text \<open>\<^verbatim>\<open>d.get(key, default)\<close>: only a dict has the method; on any other decoded value
  the attribute lookup raises \<^verbatim>\<open>AttributeError\<close>.\<close>

fun py_get :: "pyval \<Rightarrow> string \<Rightarrow> pyval \<Rightarrow> error + pyval" where
  "py_get (PDict kvs) k dflt = Inr (case map_of kvs k of Some v \<Rightarrow> v | None \<Rightarrow> dflt)"
| "py_get v k dflt = Inl AttributeError"

text \<open>\<^verbatim>\<open>d[key]\<close> with a string key: \<^verbatim>\<open>KeyError\<close> on a dict without the key,
  \<^verbatim>\<open>TypeError\<close> on \<^verbatim>\<open>None\<close>, a bool, a number (not subscriptable), a string or a
  list (indices must be integers).\<close>

fun py_getitem :: "pyval \<Rightarrow> string \<Rightarrow> error + pyval" where
  "py_getitem (PDict kvs) k = (case map_of kvs k of Some v \<Rightarrow> Inr v | None \<Rightarrow> Inl (KeyError k))"
| "py_getitem v k = Inl TypeError"

text \<open>\<^verbatim>\<open>s.rstrip(chars)\<close>: drops every trailing character that is in \<open>chars\<close>.\<close>

definition rstrip :: "string \<Rightarrow> string \<Rightarrow> string" where
  "rstrip s chars = rev (dropWhile (\<lambda>c. c \<in> set chars) (rev s))"

subsection \<open>The client object, requests and responses\<close>

record client =
  base_url :: string
  token :: pyval

text \<open>The arguments of \<^verbatim>\<open>requests.request(method, url, json=, headers=, timeout=)\<close>.\<close>

record request =
  req_method :: string
  req_url :: string
  req_json :: pyval
  req_headers :: "string \<rightharpoonup> string"
  req_timeout :: nat

text \<open>
  What the code reads off a \<^verbatim>\<open>requests.Response\<close>: \<^verbatim>\<open>status_code\<close>, \<^verbatim>\<open>text\<close> and
  the outcome of \<^verbatim>\<open>json()\<close> (\<open>None\<close> when the body does not decode and the call raises).
\<close>

record response =
  status_code :: int
  resp_text :: string
  resp_json :: "pyval option"

text \<open>
  \<^verbatim>\<open>Response.ok\<close> of the requests library: true unless \<^verbatim>\<open>raise_for_status()\<close> would
  raise, and that raises exactly for \<^verbatim>\<open>400 <= status_code < 600\<close>.
\<close>

definition ok :: "response \<Rightarrow> bool" where
  "ok resp = (\<not> (400 \<le> status_code resp \<and> status_code resp < 600))"

text \<open>
  The transport and the server behind it are outside the repository: a function from the
  request to a response or a transport failure. The state threaded through a call is the
  client object together with the list of requests handed to the transport so far.
\<close>

type_synonym server = "request \<Rightarrow> transport_failure + response"

record world =
  the_client :: client
  calls :: "request list"

definition requests_request :: "server \<Rightarrow> request \<Rightarrow> world \<Rightarrow> (transport_failure + response) \<times> world" where
  "requests_request srv req w = (srv req, w\<lparr>calls := calls w @ [req]\<rparr>)"

subsection \<open>Construction and the two helpers\<close>

definition default_base_url :: string where
  "default_base_url = ''https://api.agentpass.space''"

text \<open>\<^verbatim>\<open>__init__(self, base_url=..., token=None)\<close>; an omitted argument is \<open>None\<close>.\<close>

definition AgentPassClient :: "string option \<Rightarrow> pyval option \<Rightarrow> client" where
  "AgentPassClient base_url_arg token_arg =
     \<lparr>base_url = rstrip (case base_url_arg of None \<Rightarrow> default_base_url | Some u \<Rightarrow> u) ''/'',
      token = (case token_arg of None \<Rightarrow> PNone | Some t \<Rightarrow> t)\<rparr>"

text \<open>\<^verbatim>\<open>_headers(self, auth=True)\<close>\<close>

definition client_headers :: "(pyval \<Rightarrow> string) \<Rightarrow> client \<Rightarrow> bool \<Rightarrow> (string \<rightharpoonup> string)" where
  "client_headers rpr self auth =
     (let h = [''Content-Type'' \<mapsto> ''application/json''] in
      if auth \<and> truthy (token self)
      then h(''Authorization'' \<mapsto> ''Bearer '' @ py_str rpr (token self))
      else h)"

text \<open>
  \<^verbatim>\<open>_request(self, method, path, *, json=None, auth=True)\<close>. The \<^verbatim>\<open>try\<close> block of
  the failure branch swallows every exception of \<^verbatim>\<open>resp.json().get("error", body)\<close>
  and keeps the raw text in that case.
\<close>

definition client_request ::
  "(pyval \<Rightarrow> string) \<Rightarrow> server \<Rightarrow> string \<Rightarrow> string \<Rightarrow> pyval \<Rightarrow> bool \<Rightarrow> world \<Rightarrow> (error + pyval) \<times> world" where
  "client_request rpr srv method path json auth w =
     (let url = base_url (the_client w) @ path;
          (r, w') = requests_request srv
             \<lparr>req_method = method, req_url = url, req_json = json,
              req_headers = client_headers rpr (the_client w) auth, req_timeout = 30\<rparr> w
      in case r of
           Inl failure \<Rightarrow> (Inl (TransportError failure), w')
         | Inr resp \<Rightarrow>
             if \<not> ok resp then
               (let body = PStr (resp_text resp);
                    body = (case resp_json resp of
                              None \<Rightarrow> body
                            | Some j \<Rightarrow> (case py_get j ''error'' body of
                                          Inl e \<Rightarrow> body
                                        | Inr v \<Rightarrow> v))
                in (Inl (AgentPassError (py_str rpr body) (Some (status_code resp))), w'))
             else if status_code resp = 204 then (Inr PNone, w')
             else (case resp_json resp of
                     None \<Rightarrow> (Inl JSONDecodeError, w')
                   | Some j \<Rightarrow> (Inr j, w')))"

subsection \<open>The public methods\<close>

definition register ::
  "(pyval \<Rightarrow> string) \<Rightarrow> server \<Rightarrow> string \<Rightarrow> string \<Rightarrow> string \<Rightarrow> world \<Rightarrow> (error + pyval) \<times> world" where
  "register rpr srv email password name w =
     (case client_request rpr srv ''POST'' ''/auth/register''
             (PDict [(''email'', PStr email), (''password'', PStr password), (''name'', PStr name)])
             True w of
        (Inl e, w') \<Rightarrow> (Inl e, w')
      | (Inr data, w') \<Rightarrow>
          (case py_getitem data ''token'' of
             Inl e \<Rightarrow> (Inl e, w')
           | Inr t \<Rightarrow>
               (let w'' = w'\<lparr>the_client := (the_client w')\<lparr>token := t\<rparr>\<rparr>
                in (Inr (token (the_client w'')), w''))))"

definition login ::
  "(pyval \<Rightarrow> string) \<Rightarrow> server \<Rightarrow> string \<Rightarrow> string \<Rightarrow> world \<Rightarrow> (error + pyval) \<times> world" where
  "login rpr srv email password w =
     (case client_request rpr srv ''POST'' ''/auth/login''
             (PDict [(''email'', PStr email), (''password'', PStr password)])
             True w of
        (Inl e, w') \<Rightarrow> (Inl e, w')
      | (Inr data, w') \<Rightarrow>
          (case py_getitem data ''token'' of
             Inl e \<Rightarrow> (Inl e, w')
           | Inr t \<Rightarrow>
               (let w'' = w'\<lparr>the_client := (the_client w')\<lparr>token := t\<rparr>\<rparr>
                in (Inr (token (the_client w'')), w''))))"

definition create_passport ::
  "(pyval \<Rightarrow> string) \<Rightarrow> server \<Rightarrow> string \<Rightarrow> string \<Rightarrow> world \<Rightarrow> (error + pyval) \<times> world" where
  "create_passport rpr srv name public_key w =
     client_request rpr srv ''POST'' ''/passports''
       (PDict [(''name'', PStr name), (''publicKey'', PStr public_key)]) True w"

definition get_passport ::
  "(pyval \<Rightarrow> string) \<Rightarrow> server \<Rightarrow> string \<Rightarrow> world \<Rightarrow> (error + pyval) \<times> world" where
  "get_passport rpr srv passport_id w =
     client_request rpr srv ''GET'' (''/passports/'' @ passport_id) PNone True w"

definition get_public_passport ::
  "(pyval \<Rightarrow> string) \<Rightarrow> server \<Rightarrow> string \<Rightarrow> world \<Rightarrow> (error + pyval) \<times> world" where
  "get_public_passport rpr srv passport_id w =
     client_request rpr srv ''GET'' (''/passports/'' @ passport_id @ ''/public'') PNone False w"

definition verify ::
  "(pyval \<Rightarrow> string) \<Rightarrow> server \<Rightarrow> string \<Rightarrow> string \<Rightarrow> string \<Rightarrow> world \<Rightarrow> (error + pyval) \<times> world" where
  "verify rpr srv passport_id challenge signature w =
     client_request rpr srv ''POST'' (''/passports/'' @ passport_id @ ''/verify'')
       (PDict [(''challenge'', PStr challenge), (''signature'', PStr signature)]) False w"

definition get_trust ::
  "(pyval \<Rightarrow> string) \<Rightarrow> server \<Rightarrow> string \<Rightarrow> world \<Rightarrow> (error + pyval) \<times> world" where
  "get_trust rpr srv passport_id w =
     client_request rpr srv ''GET'' (''/passports/'' @ passport_id @ ''/trust'') PNone True w"

definition send_message ::
  "(pyval \<Rightarrow> string) \<Rightarrow> server \<Rightarrow> string \<Rightarrow> string \<Rightarrow> string \<Rightarrow> string \<Rightarrow> world \<Rightarrow> (error + pyval) \<times> world" where
  "send_message rpr srv from_id to_id subject body w =
     client_request rpr srv ''POST'' ''/messages''
       (PDict [(''from'', PStr from_id), (''to'', PStr to_id), (''subject'', PStr subject),
               (''body'', PStr body)]) True w"

definition get_messages ::
  "(pyval \<Rightarrow> string) \<Rightarrow> server \<Rightarrow> string \<Rightarrow> world \<Rightarrow> (error + pyval) \<times> world" where
  "get_messages rpr srv passport_id w =
     client_request rpr srv ''GET'' (''/passports/'' @ passport_id @ ''/messages'') PNone True w"

subsection \<open>Calls\<close>

text \<open>
  To speak about "every operation" the nine public methods are collected in one type of
  calls, with \<open>invoke\<close> running the method a call names.
\<close>

datatype call =
    Register string string string
  | Login string string
  | CreatePassport string string
  | GetPassport string
  | GetPublicPassport string
  | Verify string string string
  | GetTrust string
  | SendMessage string string string string
  | GetMessages string

fun invoke :: "(pyval \<Rightarrow> string) \<Rightarrow> server \<Rightarrow> call \<Rightarrow> world \<Rightarrow> (error + pyval) \<times> world" where
  "invoke rpr srv (Register email password name) w = register rpr srv email password name w"
| "invoke rpr srv (Login email password) w = login rpr srv email password w"
| "invoke rpr srv (CreatePassport name public_key) w = create_passport rpr srv name public_key w"
| "invoke rpr srv (GetPassport passport_id) w = get_passport rpr srv passport_id w"
| "invoke rpr srv (GetPublicPassport passport_id) w = get_public_passport rpr srv passport_id w"
| "invoke rpr srv (Verify passport_id challenge signature) w =
     verify rpr srv passport_id challenge signature w"
| "invoke rpr srv (GetTrust passport_id) w = get_trust rpr srv passport_id w"
| "invoke rpr srv (SendMessage from_id to_id subject body) w =
     send_message rpr srv from_id to_id subject body w"
| "invoke rpr srv (GetMessages passport_id) w = get_messages rpr srv passport_id w"

text \<open>The two methods that assign to \<^verbatim>\<open>self.token\<close>.\<close>

fun sets_token :: "call \<Rightarrow> bool" where
  "sets_token (Register email password name) = True"
| "sets_token (Login email password) = True"
| "sets_token c = False"

text \<open>
  The arguments each method passes to \<^verbatim>\<open>_request\<close>, read off its call site: the HTTP
  method, the path, the \<^verbatim>\<open>json=\<close> body (\<^verbatim>\<open>None\<close> when omitted) and the \<^verbatim>\<open>auth\<close> flag
  (\<^verbatim>\<open>True\<close> when omitted; only \<^verbatim>\<open>get_public_passport\<close> and \<^verbatim>\<open>verify\<close> pass
  \<^verbatim>\<open>auth=False\<close>).
\<close>

fun call_method :: "call \<Rightarrow> string" where
  "call_method (Register email password name) = ''POST''"
| "call_method (Login email password) = ''POST''"
| "call_method (CreatePassport name public_key) = ''POST''"
| "call_method (GetPassport passport_id) = ''GET''"
| "call_method (GetPublicPassport passport_id) = ''GET''"
| "call_method (Verify passport_id challenge signature) = ''POST''"
| "call_method (GetTrust passport_id) = ''GET''"
| "call_method (SendMessage from_id to_id subject body) = ''POST''"
| "call_method (GetMessages passport_id) = ''GET''"

fun call_path :: "call \<Rightarrow> string" where
  "call_path (Register email password name) = ''/auth/register''"
| "call_path (Login email password) = ''/auth/login''"
| "call_path (CreatePassport name public_key) = ''/passports''"
| "call_path (GetPassport passport_id) = ''/passports/'' @ passport_id"
| "call_path (GetPublicPassport passport_id) = ''/passports/'' @ passport_id @ ''/public''"
| "call_path (Verify passport_id challenge signature) = ''/passports/'' @ passport_id @ ''/verify''"
| "call_path (GetTrust passport_id) = ''/passports/'' @ passport_id @ ''/trust''"
| "call_path (SendMessage from_id to_id subject body) = ''/messages''"
| "call_path (GetMessages passport_id) = ''/passports/'' @ passport_id @ ''/messages''"

fun call_json :: "call \<Rightarrow> pyval" where
  "call_json (Register email password name) =
     PDict [(''email'', PStr email), (''password'', PStr password), (''name'', PStr name)]"
| "call_json (Login email password) = PDict [(''email'', PStr email), (''password'', PStr password)]"
| "call_json (CreatePassport name public_key) =
     PDict [(''name'', PStr name), (''publicKey'', PStr public_key)]"
| "call_json (Verify passport_id challenge signature) =
     PDict [(''challenge'', PStr challenge), (''signature'', PStr signature)]"
| "call_json (SendMessage from_id to_id subject body) =
     PDict [(''from'', PStr from_id), (''to'', PStr to_id), (''subject'', PStr subject),
            (''body'', PStr body)]"
| "call_json c = PNone"

fun call_auth :: "call \<Rightarrow> bool" where
  "call_auth (GetPublicPassport passport_id) = False"
| "call_auth (Verify passport_id challenge signature) = False"
| "call_auth c = True"

text \<open>The request a call hands to the transport, for a client object \<open>self\<close>.\<close>

definition request_of :: "(pyval \<Rightarrow> string) \<Rightarrow> client \<Rightarrow> call \<Rightarrow> request" where
  "request_of rpr self c =
     \<lparr>req_method = call_method c, req_url = base_url self @ call_path c, req_json = call_json c,
      req_headers = client_headers rpr self (call_auth c), req_timeout = 30\<rparr>"

subsection \<open>Vocabulary of the statements\<close>

text \<open>The request a call handed to the transport: the last entry of the list of requests
  after the call.\<close>

definition sent :: "(pyval \<Rightarrow> string) \<Rightarrow> server \<Rightarrow> call \<Rightarrow> world \<Rightarrow> request" where
  "sent rpr srv c w = last (calls (snd (invoke rpr srv c w)))"

text \<open>
  The operations that require authentication, as the specification's table of operations
  lists them (column "Auth": yes for \<^verbatim>\<open>createPassport\<close>, \<^verbatim>\<open>getPassport\<close>, \<^verbatim>\<open>getTrust\<close>,
  \<^verbatim>\<open>sendMessage\<close> and \<^verbatim>\<open>getMessages\<close>; no for the other four).
\<close>

fun requires_auth :: "call \<Rightarrow> bool" where
  "requires_auth (CreatePassport name public_key) = True"
| "requires_auth (GetPassport passport_id) = True"
| "requires_auth (GetTrust passport_id) = True"
| "requires_auth (SendMessage from_id to_id subject body) = True"
| "requires_auth (GetMessages passport_id) = True"
| "requires_auth c = False"

text \<open>A server that answers every request with the same response, as the mocked
  endpoints of \<^verbatim>\<open>tests/test_client.py\<close> do.\<close>

definition always :: "response \<Rightarrow> server" where
  "always resp = (\<lambda>req. Inr resp)"

text \<open>The status codes of the 2xx class.\<close>

definition is_2xx :: "response \<Rightarrow> bool" where
  "is_2xx resp = (200 \<le> status_code resp \<and> status_code resp < 300)"

text \<open>The \<^verbatim>\<open>error\<close> field of a response whose body decodes to a JSON object that has
  one.\<close>

definition error_field :: "response \<Rightarrow> pyval option" where
  "error_field resp =
     (case resp_json resp of Some (PDict kvs) \<Rightarrow> map_of kvs ''error'' | _ \<Rightarrow> None)"

fun is_dict :: "pyval \<Rightarrow> bool" where
  "is_dict (PDict kvs) = True"
| "is_dict v = False"

text \<open>A decoded body that is a JSON object with a \<^verbatim>\<open>token\<close> field.\<close>

fun has_token :: "pyval \<Rightarrow> bool" where
  "has_token (PDict kvs) = (map_of kvs ''token'' \<noteq> None)"
| "has_token v = False"

definition ends_with_slash :: "string \<Rightarrow> bool" where
  "ends_with_slash s = (s \<noteq> [] \<and> last s = CHR ''/'')"

text \<open>A session: calls made one after the other on the same client object, each answered
  by the server as it is at that moment.\<close>

fun run :: "(pyval \<Rightarrow> string) \<Rightarrow> (server \<times> call) list \<Rightarrow> world \<Rightarrow> world" where
  "run rpr [] w = w"
| "run rpr ((srv, c) # rest) w = run rpr rest (snd (invoke rpr srv c w))"

section \<open>Properties\<close>

subsection \<open>The request helper\<close>

text \<open>A request never touches the client object: it only adds the request it built to the
  list of requests.\<close>

lemma client_request_snd:
  "snd (client_request rpr srv m p j a w) =
     w\<lparr>calls := calls w @ [\<lparr>req_method = m, req_url = base_url (the_client w) @ p, req_json = j,
                             req_headers = client_headers rpr (the_client w) a, req_timeout = 30\<rparr>]\<rparr>"
  by (simp add: client_request_def requests_request_def Let_def split: sum.splits option.splits)

lemma client_request_transport:
  assumes "srv \<lparr>req_method = m, req_url = base_url (the_client w) @ p, req_json = j,
                req_headers = client_headers rpr (the_client w) a, req_timeout = 30\<rparr> = Inl failure"
  shows "fst (client_request rpr srv m p j a w) = Inl (TransportError failure)"
  using assms by (simp add: client_request_def requests_request_def)

lemma client_request_failure:
  assumes "srv \<lparr>req_method = m, req_url = base_url (the_client w) @ p, req_json = j,
                req_headers = client_headers rpr (the_client w) a, req_timeout = 30\<rparr> = Inr resp"
    and "\<not> ok resp"
  shows "fst (client_request rpr srv m p j a w) =
     Inl (AgentPassError (case error_field resp of Some v \<Rightarrow> py_str rpr v | None \<Rightarrow> resp_text resp)
            (Some (status_code resp)))"
proof (cases "resp_json resp")
  case None
  with assms show ?thesis
    by (simp add: client_request_def requests_request_def error_field_def)
next
  case (Some js)
  with assms show ?thesis
    by (cases js)
      (simp_all add: client_request_def requests_request_def error_field_def split: option.splits)
qed

lemma client_request_success:
  assumes "srv \<lparr>req_method = m, req_url = base_url (the_client w) @ p, req_json = j,
                req_headers = client_headers rpr (the_client w) a, req_timeout = 30\<rparr> = Inr resp"
    and "ok resp"
  shows "fst (client_request rpr srv m p j a w) =
     (if status_code resp = 204 then Inr PNone
      else case resp_json resp of None \<Rightarrow> Inl JSONDecodeError | Some js \<Rightarrow> Inr js)"
  using assms by (simp add: client_request_def requests_request_def split: option.splits)

lemma client_headers_content_type:
  "client_headers rpr self auth ''Content-Type'' = Some ''application/json''"
  by (simp add: client_headers_def Let_def)

lemma client_headers_authorization:
  "client_headers rpr self auth ''Authorization'' =
     (if auth \<and> truthy (token self) then Some (''Bearer '' @ py_str rpr (token self)) else None)"
  by (simp add: client_headers_def Let_def)

lemma is_2xx_ok: "is_2xx resp \<Longrightarrow> ok resp"
  by (simp add: is_2xx_def ok_def)

subsection \<open>Every method is one request\<close>

text \<open>Seven methods return what the request helper returns; \<^verbatim>\<open>register\<close> and
  \<^verbatim>\<open>login\<close> subscript it with \<^verbatim>\<open>"token"\<close> and store the value.\<close>

lemma invoke_passthrough:
  "\<not> sets_token c \<Longrightarrow>
   invoke rpr srv c w =
     client_request rpr srv (call_method c) (call_path c) (call_json c) (call_auth c) w"
  by (cases c)
    (simp_all add: create_passport_def get_passport_def get_public_passport_def verify_def
       get_trust_def send_message_def get_messages_def)

lemma invoke_sets_token:
  "sets_token c \<Longrightarrow>
   invoke rpr srv c w =
     (let (r, w') = client_request rpr srv (call_method c) (call_path c) (call_json c) (call_auth c) w
      in case r of
           Inl e \<Rightarrow> (Inl e, w')
         | Inr data \<Rightarrow>
             (case py_getitem data ''token'' of
                Inl e \<Rightarrow> (Inl e, w')
              | Inr t \<Rightarrow> (Inr t, w'\<lparr>the_client := (the_client w')\<lparr>token := t\<rparr>\<rparr>)))"
  by (cases c) (simp_all add: register_def login_def split: prod.splits sum.splits)

lemma invoke_calls:
  "calls (snd (invoke rpr srv c w)) = calls w @ [request_of rpr (the_client w) c]"
proof (cases "sets_token c")
  case False
  then show ?thesis
    by (simp add: invoke_passthrough client_request_snd request_of_def)
next
  case True
  obtain r w' where rw:
    "client_request rpr srv (call_method c) (call_path c) (call_json c) (call_auth c) w = (r, w')"
    by (cases "client_request rpr srv (call_method c) (call_path c) (call_json c) (call_auth c) w")
  have "w' = snd (client_request rpr srv (call_method c) (call_path c) (call_json c) (call_auth c) w)"
    using rw by simp
  then have "calls w' = calls w @ [request_of rpr (the_client w) c]"
    by (simp add: client_request_snd request_of_def)
  with True rw show ?thesis
    by (simp add: invoke_sets_token split: sum.splits)
qed

lemma sent_eq: "sent rpr srv c w = request_of rpr (the_client w) c"
  by (simp add: sent_def invoke_calls)

lemma sent_headers:
  "req_headers (sent rpr srv c w) = client_headers rpr (the_client w) (call_auth c)"
  by (simp add: sent_eq request_of_def)

text \<open>Each of the five operations that require authentication passes \<^verbatim>\<open>auth=True\<close>.\<close>

lemma requires_auth_call_auth: "requires_auth c \<Longrightarrow> call_auth c"
  by (cases c) simp_all

lemma request_result_success:
  assumes "srv (request_of rpr (the_client w) c) = Inr resp" and "ok resp"
  shows "fst (client_request rpr srv (call_method c) (call_path c) (call_json c) (call_auth c) w) =
     (if status_code resp = 204 then Inr PNone
      else case resp_json resp of None \<Rightarrow> Inl JSONDecodeError | Some js \<Rightarrow> Inr js)"
  using assms by (intro client_request_success) (simp_all add: request_of_def)

lemma invoke_sets_token_result:
  assumes "sets_token c"
    and "fst (client_request rpr srv (call_method c) (call_path c) (call_json c) (call_auth c) w) =
           Inr data"
  shows "fst (invoke rpr srv c w) = py_getitem data ''token''"
proof -
  obtain r w' where rw:
    "client_request rpr srv (call_method c) (call_path c) (call_json c) (call_auth c) w = (r, w')"
    by (cases "client_request rpr srv (call_method c) (call_path c) (call_json c) (call_auth c) w")
  with assms(2) have "r = Inr data" by simp
  with assms(1) rw show ?thesis
    by (simp add: invoke_sets_token split: sum.splits)
qed

lemma invoke_result_failure:
  assumes "srv (request_of rpr (the_client w) c) = Inr resp" and "\<not> ok resp"
  shows "fst (invoke rpr srv c w) =
     Inl (AgentPassError (case error_field resp of Some v \<Rightarrow> py_str rpr v | None \<Rightarrow> resp_text resp)
            (Some (status_code resp)))"
proof -
  have req:
    "fst (client_request rpr srv (call_method c) (call_path c) (call_json c) (call_auth c) w) =
       Inl (AgentPassError (case error_field resp of Some v \<Rightarrow> py_str rpr v | None \<Rightarrow> resp_text resp)
              (Some (status_code resp)))"
    using assms by (intro client_request_failure) (simp_all add: request_of_def)
  show ?thesis
  proof (cases "sets_token c")
    case False
    with req show ?thesis by (simp add: invoke_passthrough)
  next
    case True
    obtain r w' where rw:
      "client_request rpr srv (call_method c) (call_path c) (call_json c) (call_auth c) w = (r, w')"
      by (cases "client_request rpr srv (call_method c) (call_path c) (call_json c) (call_auth c) w")
    with req have
      "r = Inl (AgentPassError (case error_field resp of Some v \<Rightarrow> py_str rpr v | None \<Rightarrow> resp_text resp)
                  (Some (status_code resp)))"
      by simp
    with True rw show ?thesis
      by (simp add: invoke_sets_token)
  qed
qed

lemma invoke_transport_failure:
  assumes "srv (request_of rpr (the_client w) c) = Inl failure"
  shows "fst (invoke rpr srv c w) = Inl (TransportError failure)"
proof -
  have req:
    "fst (client_request rpr srv (call_method c) (call_path c) (call_json c) (call_auth c) w) =
       Inl (TransportError failure)"
    using assms by (intro client_request_transport) (simp add: request_of_def)
  show ?thesis
  proof (cases "sets_token c")
    case False
    with req show ?thesis by (simp add: invoke_passthrough)
  next
    case True
    obtain r w' where rw:
      "client_request rpr srv (call_method c) (call_path c) (call_json c) (call_auth c) w = (r, w')"
      by (cases "client_request rpr srv (call_method c) (call_path c) (call_json c) (call_auth c) w")
    with req have "r = Inl (TransportError failure)" by simp
    with True rw show ?thesis
      by (simp add: invoke_sets_token)
  qed
qed

subsection \<open>What a call does to the client object\<close>

lemma invoke_client_passthrough:
  "\<not> sets_token c \<Longrightarrow> the_client (snd (invoke rpr srv c w)) = the_client w"
  by (simp add: invoke_passthrough client_request_snd)

lemma invoke_client_error:
  assumes "fst (invoke rpr srv c w) = Inl e"
  shows "the_client (snd (invoke rpr srv c w)) = the_client w"
proof (cases "sets_token c")
  case False
  then show ?thesis by (rule invoke_client_passthrough)
next
  case True
  obtain r w' where rw:
    "client_request rpr srv (call_method c) (call_path c) (call_json c) (call_auth c) w = (r, w')"
    by (cases "client_request rpr srv (call_method c) (call_path c) (call_json c) (call_auth c) w")
  have "w' = snd (client_request rpr srv (call_method c) (call_path c) (call_json c) (call_auth c) w)"
    using rw by simp
  then have "the_client w' = the_client w"
    by (simp add: client_request_snd)
  with True rw assms show ?thesis
    by (simp add: invoke_sets_token split: sum.splits)
qed

lemma invoke_base_url:
  "base_url (the_client (snd (invoke rpr srv c w))) = base_url (the_client w)"
proof (cases "sets_token c")
  case False
  then show ?thesis by (simp add: invoke_client_passthrough)
next
  case True
  obtain r w' where rw:
    "client_request rpr srv (call_method c) (call_path c) (call_json c) (call_auth c) w = (r, w')"
    by (cases "client_request rpr srv (call_method c) (call_path c) (call_json c) (call_auth c) w")
  have "w' = snd (client_request rpr srv (call_method c) (call_path c) (call_json c) (call_auth c) w)"
    using rw by simp
  then have "the_client w' = the_client w"
    by (simp add: client_request_snd)
  with True rw show ?thesis
    by (simp add: invoke_sets_token split: sum.splits)
qed

lemma run_base_url: "base_url (the_client (run rpr steps w)) = base_url (the_client w)"
  by (induction rpr steps w rule: run.induct) (simp_all add: invoke_base_url)

text \<open>A session of \<open>n\<close> calls hands \<open>n\<close> requests to the transport: there is no retry.\<close>

lemma run_calls_length: "length (calls (run rpr steps w)) = length (calls w) + length steps"
  by (induction rpr steps w rule: run.induct) (simp_all add: invoke_calls)

subsection \<open>Stripping the base URL\<close>

lemma rstrip_decompose: "\<exists>k. s = rstrip s [ch] @ replicate k ch"
proof (induction s rule: rev_induct)
  case Nil
  show ?case by (simp add: rstrip_def)
next
  case (snoc x xs)
  show ?case
  proof (cases "x = ch")
    case False
    then have "xs @ [x] = rstrip (xs @ [x]) [ch] @ replicate 0 ch"
      by (simp add: rstrip_def)
    then show ?thesis by blast
  next
    case True
    from snoc obtain k where k: "xs = rstrip xs [ch] @ replicate k ch" by blast
    have "rstrip (xs @ [x]) [ch] = rstrip xs [ch]"
      using True by (simp add: rstrip_def)
    moreover have "replicate (Suc k) ch = replicate k ch @ [ch]"
      by (simp add: replicate_append_same)
    ultimately have "xs @ [x] = rstrip (xs @ [x]) [ch] @ replicate (Suc k) ch"
      using k True by simp
    then show ?thesis by blast
  qed
qed

lemma rstrip_no_trailing: "\<not> ends_with_slash (rstrip s ''/'')"
proof -
  have "dropWhile (\<lambda>c. c = CHR ''/'') (rev s) = [] \<or>
        hd (dropWhile (\<lambda>c. c = CHR ''/'') (rev s)) \<noteq> CHR ''/''"
    using hd_dropWhile [of "\<lambda>c. c = CHR ''/''" "rev s"] by blast
  then show ?thesis
    by (auto simp: ends_with_slash_def rstrip_def last_rev)
qed

section \<open>The claims of the specification\<close>

subsection \<open>C1: failure responses raise the API error\<close>

text \<open>
  Claim C1, as the code has it. For every operation: when the response has a status from 400
  to 599 (the statuses for which \<^verbatim>\<open>resp.ok\<close> is false), the call raises
  \<^verbatim>\<open>AgentPassError\<close>; its \<^verbatim>\<open>status_code\<close> is the status of the response, and its
  message is \<^verbatim>\<open>str\<close> of the \<^verbatim>\<open>error\<close> field when the body decodes to a JSON object
  that has one, and the raw body text otherwise.
\<close>

theorem api_error_on_failure_status:
  assumes "srv (request_of rpr (the_client w) c) = Inr resp"
    and "400 \<le> status_code resp" and "status_code resp < 600"
  shows "fst (invoke rpr srv c w) =
     Inl (AgentPassError
            (case error_field resp of Some v \<Rightarrow> py_str rpr v | None \<Rightarrow> resp_text resp)
            (Some (status_code resp)))"
  using assms by (intro invoke_result_failure) (simp_all add: ok_def)

text \<open>The failed login of \<^verbatim>\<open>test_error_handling\<close>: status 401 with the body
  \<^verbatim>\<open>{"error": "Invalid credentials"}\<close>.\<close>

theorem api_error_on_failure_status_witness:
  "error_field \<lparr>status_code = 401, resp_text = ''{\"error\": \"Invalid credentials\"}'',
                 resp_json = Some (PDict [(''error'', PStr ''Invalid credentials'')])\<rparr>
     = Some (PStr ''Invalid credentials'') \<and>
   fst (invoke (\<lambda>v. [])
          (always \<lparr>status_code = 401, resp_text = ''{\"error\": \"Invalid credentials\"}'',
                   resp_json = Some (PDict [(''error'', PStr ''Invalid credentials'')])\<rparr>)
          (Login ''bad@x.com'' ''wrong'')
          \<lparr>the_client = AgentPassClient None None, calls = []\<rparr>)
     = Inl (AgentPassError ''Invalid credentials'' (Some 401))"
  using api_error_on_failure_status
          [of "always \<lparr>status_code = 401, resp_text = ''{\"error\": \"Invalid credentials\"}'',
                        resp_json = Some (PDict [(''error'', PStr ''Invalid credentials'')])\<rparr>"
              "\<lambda>v. []" "\<lparr>the_client = AgentPassClient None None, calls = []\<rparr>"
              "Login ''bad@x.com'' ''wrong''"
              "\<lparr>status_code = 401, resp_text = ''{\"error\": \"Invalid credentials\"}'',
                resp_json = Some (PDict [(''error'', PStr ''Invalid credentials'')])\<rparr>"]
  by (simp add: always_def error_field_def)

text \<open>
  Not every status outside 2xx is a failure for \<^verbatim>\<open>resp.ok\<close>: a response with status 300
  (which the transport does not follow as a redirect) is decoded and returned like a
  success, whatever its body says.
\<close>

theorem status_300_returns_body:
  "\<not> is_2xx \<lparr>status_code = 300, resp_text = ''{\"error\": \"Multiple Choices\"}'',
               resp_json = Some (PDict [(''error'', PStr ''Multiple Choices'')])\<rparr> \<and>
   fst (invoke (\<lambda>v. [])
          (always \<lparr>status_code = 300, resp_text = ''{\"error\": \"Multiple Choices\"}'',
                   resp_json = Some (PDict [(''error'', PStr ''Multiple Choices'')])\<rparr>)
          (GetPassport ''ap_1'')
          \<lparr>the_client = AgentPassClient None (Some (PStr ''t'')), calls = []\<rparr>)
     = Inr (PDict [(''error'', PStr ''Multiple Choices'')])"
  by (simp add: is_2xx_def always_def get_passport_def client_request_def requests_request_def
      ok_def)

text \<open>The other half of the picture: a response that is \<^verbatim>\<open>ok\<close> never ends in the API
  error.\<close>

lemma no_api_error_when_ok:
  assumes "srv (request_of rpr (the_client w) c) = Inr resp" and "ok resp"
  shows "fst (invoke rpr srv c w) \<noteq> Inl (AgentPassError m sc)"
proof (cases "sets_token c")
  case False
  with assms show ?thesis
    by (simp add: invoke_passthrough request_result_success split: option.splits)
next
  case True
  have "\<exists>data. fst (client_request rpr srv (call_method c) (call_path c) (call_json c) (call_auth c) w)
          = Inr data \<or>
        fst (client_request rpr srv (call_method c) (call_path c) (call_json c) (call_auth c) w)
          = Inl JSONDecodeError"
    using assms by (simp add: request_result_success split: option.splits)
  then show ?thesis
  proof
    fix data
    assume "fst (client_request rpr srv (call_method c) (call_path c) (call_json c) (call_auth c) w)
          = Inr data \<or>
        fst (client_request rpr srv (call_method c) (call_path c) (call_json c) (call_auth c) w)
          = Inl JSONDecodeError"
    then show ?thesis
    proof
      assume "fst (client_request rpr srv (call_method c) (call_path c) (call_json c) (call_auth c) w)
          = Inr data"
      with True have "fst (invoke rpr srv c w) = py_getitem data ''token''"
        by (rule invoke_sets_token_result)
      then show ?thesis
        by (cases data) (simp_all split: option.splits)
    next
      assume dec: "fst (client_request rpr srv (call_method c) (call_path c) (call_json c) (call_auth c) w)
          = Inl JSONDecodeError"
      obtain r w' where rw:
        "client_request rpr srv (call_method c) (call_path c) (call_json c) (call_auth c) w = (r, w')"
        by (cases "client_request rpr srv (call_method c) (call_path c) (call_json c) (call_auth c) w")
      with dec have "r = Inl JSONDecodeError" by simp
      with True rw show ?thesis
        by (simp add: invoke_sets_token)
    qed
  qed
qed

subsection \<open>C2: register and login store and return the token\<close>

text \<open>
  Claim C2. For \<^verbatim>\<open>register\<close> and \<^verbatim>\<open>login\<close>: when the server answers with a success
  status (any status for which \<^verbatim>\<open>resp.ok\<close> holds, so every 2xx) other than 204 "no
  content" and the body decodes to a JSON object with a \<^verbatim>\<open>token\<close> field, the client's
  stored token becomes the value of that field and the call returns the same value.
\<close>

theorem auth_call_sets_and_returns_token:
  assumes "sets_token c"
    and "srv (request_of rpr (the_client w) c) = Inr resp"
    and "ok resp" and "status_code resp \<noteq> 204"
    and "resp_json resp = Some (PDict kvs)" and "map_of kvs ''token'' = Some t"
  shows "fst (invoke rpr srv c w) = Inr t \<and>
         token (the_client (snd (invoke rpr srv c w))) = t"
proof -
  obtain r w' where rw:
    "client_request rpr srv (call_method c) (call_path c) (call_json c) (call_auth c) w = (r, w')"
    by (cases "client_request rpr srv (call_method c) (call_path c) (call_json c) (call_auth c) w")
  have "fst (client_request rpr srv (call_method c) (call_path c) (call_json c) (call_auth c) w) =
          Inr (PDict kvs)"
    using assms by (simp add: request_result_success)
  with rw have "r = Inr (PDict kvs)" by simp
  with assms(1,6) rw show ?thesis
    by (simp add: invoke_sets_token)
qed

text \<open>\<^verbatim>\<open>test_register\<close>: the server answers \<^verbatim>\<open>{"token": "tok123"}\<close>.\<close>

theorem auth_call_sets_and_returns_token_witness:
  "is_2xx \<lparr>status_code = 200, resp_text = ''{\"token\": \"tok123\"}'',
            resp_json = Some (PDict [(''token'', PStr ''tok123'')])\<rparr> \<and>
   fst (invoke (\<lambda>v. [])
          (always \<lparr>status_code = 200, resp_text = ''{\"token\": \"tok123\"}'',
                   resp_json = Some (PDict [(''token'', PStr ''tok123'')])\<rparr>)
          (Register ''a@b.com'' ''pw'' ''Agent'')
          \<lparr>the_client = AgentPassClient None None, calls = []\<rparr>) = Inr (PStr ''tok123'') \<and>
   token (the_client (snd (invoke (\<lambda>v. [])
          (always \<lparr>status_code = 200, resp_text = ''{\"token\": \"tok123\"}'',
                   resp_json = Some (PDict [(''token'', PStr ''tok123'')])\<rparr>)
          (Register ''a@b.com'' ''pw'' ''Agent'')
          \<lparr>the_client = AgentPassClient None None, calls = []\<rparr>))) = PStr ''tok123''"
  using auth_call_sets_and_returns_token
          [of "Register ''a@b.com'' ''pw'' ''Agent''"
              "always \<lparr>status_code = 200, resp_text = ''{\"token\": \"tok123\"}'',
                        resp_json = Some (PDict [(''token'', PStr ''tok123'')])\<rparr>"
              "\<lambda>v. []" "\<lparr>the_client = AgentPassClient None None, calls = []\<rparr>"
              "\<lparr>status_code = 200, resp_text = ''{\"token\": \"tok123\"}'',
                resp_json = Some (PDict [(''token'', PStr ''tok123'')])\<rparr>"
              "[(''token'', PStr ''tok123'')]" "PStr ''tok123''"]
  by (simp add: always_def ok_def is_2xx_def)

subsection \<open>C3: the headers of a request\<close>

text \<open>
  Claim C3, as the code has it. For every operation the request headers include
  \<^verbatim>\<open>Content-Type: application/json\<close>. When the operation requires authentication and the
  stored token is true for Python (for a string: not empty), they also include
  \<^verbatim>\<open>Authorization: Bearer <token>\<close>, with \<^verbatim>\<open>str\<close> of the token after \<^verbatim>\<open>Bearer\<close>. When
  no token is set (the stored token is \<^verbatim>\<open>None\<close>, or any other value that is false for
  Python such as the empty string), the operations that require authentication leave the
  \<^verbatim>\<open>Authorization\<close> header out.
\<close>

theorem request_headers_of_every_call:
  "req_headers (sent rpr srv c w) ''Content-Type'' = Some ''application/json'' \<and>
   (requires_auth c \<and> truthy (token (the_client w)) \<longrightarrow>
      req_headers (sent rpr srv c w) ''Authorization'' =
        Some (''Bearer '' @ py_str rpr (token (the_client w)))) \<and>
   (\<forall>t. requires_auth c \<and> token (the_client w) = PStr t \<and> t \<noteq> [] \<longrightarrow>
      req_headers (sent rpr srv c w) ''Authorization'' = Some (''Bearer '' @ t)) \<and>
   (requires_auth c \<and> \<not> truthy (token (the_client w)) \<longrightarrow>
      req_headers (sent rpr srv c w) ''Authorization'' = None) \<and>
   (requires_auth c \<and> token (the_client w) = PNone \<longrightarrow>
      req_headers (sent rpr srv c w) ''Authorization'' = None)"
proof -
  have content: "req_headers (sent rpr srv c w) ''Content-Type'' = Some ''application/json''"
    by (simp add: sent_headers client_headers_content_type)
  have auth: "req_headers (sent rpr srv c w) ''Authorization'' =
      (if truthy (token (the_client w))
       then Some (''Bearer '' @ py_str rpr (token (the_client w))) else None)"
    if "requires_auth c"
    using requires_auth_call_auth [OF that]
    by (simp add: sent_headers client_headers_authorization)
  show ?thesis
    using content auth by auto
qed

text \<open>\<^verbatim>\<open>test_create_passport\<close> (token \<^verbatim>\<open>"t"\<close>), and the same call on a client without a
  token.\<close>

theorem request_headers_of_every_call_witness:
  "requires_auth (CreatePassport ''bot'' ''pubkey'') \<and> truthy (PStr ''t'') \<and>
   req_headers
     (sent (\<lambda>v. [])
        (always \<lparr>status_code = 200, resp_text = ''{\"id\": \"ap_1\"}'',
                 resp_json = Some (PDict [(''id'', PStr ''ap_1'')])\<rparr>)
        (CreatePassport ''bot'' ''pubkey'')
        \<lparr>the_client = AgentPassClient None (Some (PStr ''t'')), calls = []\<rparr>)
     ''Authorization'' = Some ''Bearer t'' \<and>
   req_headers
     (sent (\<lambda>v. [])
        (always \<lparr>status_code = 200, resp_text = ''{\"id\": \"ap_1\"}'',
                 resp_json = Some (PDict [(''id'', PStr ''ap_1'')])\<rparr>)
        (CreatePassport ''bot'' ''pubkey'')
        \<lparr>the_client = AgentPassClient None None, calls = []\<rparr>)
     ''Authorization'' = None"
  using request_headers_of_every_call
          [of "\<lambda>v. []"
              "always \<lparr>status_code = 200, resp_text = ''{\"id\": \"ap_1\"}'',
                        resp_json = Some (PDict [(''id'', PStr ''ap_1'')])\<rparr>"
              "CreatePassport ''bot'' ''pubkey''"
              "\<lparr>the_client = AgentPassClient None (Some (PStr ''t'')), calls = []\<rparr>"]
        request_headers_of_every_call
          [of "\<lambda>v. []"
              "always \<lparr>status_code = 200, resp_text = ''{\"id\": \"ap_1\"}'',
                        resp_json = Some (PDict [(''id'', PStr ''ap_1'')])\<rparr>"
              "CreatePassport ''bot'' ''pubkey''"
              "\<lparr>the_client = AgentPassClient None None, calls = []\<rparr>"]
  by (simp add: AgentPassClient_def)

text \<open>
  A token can be present and still not be sent: \<^verbatim>\<open>AgentPassClient(token="")\<close> stores the
  empty string, which is not \<^verbatim>\<open>None\<close>, and \<^verbatim>\<open>create_passport\<close>, an operation that
  requires authentication, then builds a request without the \<^verbatim>\<open>Authorization\<close> header.
\<close>

theorem empty_token_omits_authorization:
  "token (AgentPassClient None (Some (PStr []))) = PStr [] \<and>
   token (AgentPassClient None (Some (PStr []))) \<noteq> PNone \<and>
   requires_auth (CreatePassport ''bot'' ''pubkey'') \<and>
   req_headers
     (sent (\<lambda>v. [])
        (always \<lparr>status_code = 200, resp_text = ''{\"id\": \"ap_1\"}'',
                 resp_json = Some (PDict [(''id'', PStr ''ap_1'')])\<rparr>)
        (CreatePassport ''bot'' ''pubkey'')
        \<lparr>the_client = AgentPassClient None (Some (PStr [])), calls = []\<rparr>)
     ''Authorization'' = None"
  by (simp add: sent_def AgentPassClient_def create_passport_def client_request_def
      requests_request_def always_def ok_def client_headers_def Let_def)

subsection \<open>C4: the decoded body is returned unchanged\<close>

text \<open>
  Claim C4. For every operation that returns what the request helper returns (so for
  \<^verbatim>\<open>create_passport\<close>, \<^verbatim>\<open>get_passport\<close>, \<^verbatim>\<open>send_message\<close> and \<^verbatim>\<open>get_messages\<close>, and also
  \<^verbatim>\<open>get_public_passport\<close>, \<^verbatim>\<open>verify\<close> and \<^verbatim>\<open>get_trust\<close>): when the server answers with a
  success status other than 204 "no content" and the body decodes to the JSON value \<open>v\<close>,
  the call returns \<open>v\<close> itself, with no field added, removed or renamed. In particular,
  when \<open>v\<close> is an array, the result is a list of the same length.
\<close>

theorem json_body_returned_unchanged:
  assumes "\<not> sets_token c"
    and "srv (request_of rpr (the_client w) c) = Inr resp"
    and "ok resp" and "status_code resp \<noteq> 204"
    and "resp_json resp = Some v"
  shows "fst (invoke rpr srv c w) = Inr v \<and>
         (\<forall>msgs. v = PList msgs \<longrightarrow>
            (\<exists>out. fst (invoke rpr srv c w) = Inr (PList out) \<and> length out = length msgs))"
  using assms by (simp add: invoke_passthrough request_result_success)

text \<open>\<^verbatim>\<open>test_get_messages\<close>: the server answers with an array of one message.\<close>

theorem json_body_returned_unchanged_witness:
  "\<not> sets_token (GetMessages ''ap_a'') \<and>
   fst (invoke (\<lambda>v. [])
          (always \<lparr>status_code = 200, resp_text = ''[{\"id\": \"m1\"}]'',
                   resp_json = Some (PList [PDict [(''id'', PStr ''m1'')]])\<rparr>)
          (GetMessages ''ap_a'')
          \<lparr>the_client = AgentPassClient None (Some (PStr ''t'')), calls = []\<rparr>)
     = Inr (PList [PDict [(''id'', PStr ''m1'')]])"
  using json_body_returned_unchanged
          [of "GetMessages ''ap_a''"
              "always \<lparr>status_code = 200, resp_text = ''[{\"id\": \"m1\"}]'',
                        resp_json = Some (PList [PDict [(''id'', PStr ''m1'')]])\<rparr>"
              "\<lambda>v. []"
              "\<lparr>the_client = AgentPassClient None (Some (PStr ''t'')), calls = []\<rparr>"
              "\<lparr>status_code = 200, resp_text = ''[{\"id\": \"m1\"}]'',
                resp_json = Some (PList [PDict [(''id'', PStr ''m1'')]])\<rparr>"
              "PList [PDict [(''id'', PStr ''m1'')]]"]
  by (simp add: always_def ok_def)

subsection \<open>C5: the public calls never send the token\<close>

text \<open>
  Claim C5. Take two client states with the same base URL and any two stored tokens (one
  set and one not, say). \<^verbatim>\<open>get_public_passport\<close> builds a request without an
  \<^verbatim>\<open>Authorization\<close> header in both runs, and so does \<^verbatim>\<open>verify\<close>; the two requests are
  in fact the same request, so nothing of the token reaches the transport.
\<close>

theorem public_calls_never_send_authorization:
  assumes "c = GetPublicPassport passport_id \<or> c = Verify passport_id challenge signature"
    and "base_url (the_client w1) = base_url (the_client w2)"
  shows "req_headers (sent rpr srv1 c w1) ''Authorization'' = None \<and>
         req_headers (sent rpr srv2 c w2) ''Authorization'' = None \<and>
         sent rpr srv1 c w1 = sent rpr srv2 c w2"
  using assms by (auto simp: sent_eq request_of_def client_headers_def Let_def)

theorem public_calls_never_send_authorization_witness:
  "req_headers
     (sent (\<lambda>v. []) (always \<lparr>status_code = 200, resp_text = ''{}'', resp_json = Some (PDict [])\<rparr>)
        (GetPublicPassport ''ap_1'')
        \<lparr>the_client = AgentPassClient None (Some (PStr ''secret'')), calls = []\<rparr>)
     ''Authorization'' = None \<and>
   req_headers
     (sent (\<lambda>v. []) (always \<lparr>status_code = 200, resp_text = ''{}'', resp_json = Some (PDict [])\<rparr>)
        (GetPublicPassport ''ap_1'')
        \<lparr>the_client = AgentPassClient None None, calls = []\<rparr>)
     ''Authorization'' = None"
  using public_calls_never_send_authorization
          [of "GetPublicPassport ''ap_1''" "''ap_1''" "[]" "[]"
              "\<lparr>the_client = AgentPassClient None (Some (PStr ''secret'')), calls = []\<rparr>"
              "\<lparr>the_client = AgentPassClient None None, calls = []\<rparr>"
              "\<lambda>v. []"
              "always \<lparr>status_code = 200, resp_text = ''{}'', resp_json = Some (PDict [])\<rparr>"
              "always \<lparr>status_code = 200, resp_text = ''{}'', resp_json = Some (PDict [])\<rparr>"]
  by (simp add: AgentPassClient_def)

subsection \<open>C6: only register and login change the client\<close>

text \<open>
  Claim C6. Every operation other than \<^verbatim>\<open>register\<close> and \<^verbatim>\<open>login\<close> leaves the client
  object (base URL and token) as it was, whatever the server answers and whether the call
  returns or raises.
\<close>

theorem other_calls_keep_client:
  "\<not> sets_token c \<Longrightarrow> the_client (snd (invoke rpr srv c w)) = the_client w"
  by (rule invoke_client_passthrough)

theorem other_calls_keep_client_witness:
  "\<not> sets_token (GetTrust ''ap_1'') \<and>
   the_client (snd (invoke (\<lambda>v. [])
      (always \<lparr>status_code = 500, resp_text = ''oops'', resp_json = None\<rparr>)
      (GetTrust ''ap_1'')
      \<lparr>the_client = AgentPassClient None (Some (PStr ''t'')), calls = []\<rparr>))
   = AgentPassClient None (Some (PStr ''t''))"
  using other_calls_keep_client
          [of "GetTrust ''ap_1''" "\<lambda>v. []"
              "always \<lparr>status_code = 500, resp_text = ''oops'', resp_json = None\<rparr>"
              "\<lparr>the_client = AgentPassClient None (Some (PStr ''t'')), calls = []\<rparr>"]
  by simp

subsection \<open>C7: a 204 response\<close>

text \<open>
  Claim C7, as the code has it. When the response has status 204, the request helper
  returns \<^verbatim>\<open>None\<close>. Every operation other than \<^verbatim>\<open>register\<close> and \<^verbatim>\<open>login\<close> returns that
  \<^verbatim>\<open>None\<close> to the caller: no result value, not an empty object and not an error.
  \<^verbatim>\<open>register\<close> and \<^verbatim>\<open>login\<close> subscript the \<^verbatim>\<open>None\<close> with \<^verbatim>\<open>"token"\<close> and raise
  \<^verbatim>\<open>TypeError\<close>.
\<close>

theorem no_content_result:
  assumes "srv (request_of rpr (the_client w) c) = Inr resp" and "status_code resp = 204"
  shows "(\<not> sets_token c \<longrightarrow> fst (invoke rpr srv c w) = Inr PNone) \<and>
         (sets_token c \<longrightarrow> fst (invoke rpr srv c w) = Inl TypeError)"
proof -
  have "ok resp"
    using assms(2) by (simp add: ok_def)
  with assms have
    "fst (client_request rpr srv (call_method c) (call_path c) (call_json c) (call_auth c) w) =
       Inr PNone"
    by (simp add: request_result_success)
  then show ?thesis
    by (simp add: invoke_passthrough invoke_sets_token_result)
qed

theorem no_content_result_witness:
  "\<not> sets_token (SendMessage ''ap_a'' ''ap_b'' ''Hi'' ''Hello'') \<and>
   fst (invoke (\<lambda>v. [])
          (always \<lparr>status_code = 204, resp_text = [], resp_json = None\<rparr>)
          (SendMessage ''ap_a'' ''ap_b'' ''Hi'' ''Hello'')
          \<lparr>the_client = AgentPassClient None (Some (PStr ''t'')), calls = []\<rparr>) = Inr PNone"
  using no_content_result
          [of "always \<lparr>status_code = 204, resp_text = [], resp_json = None\<rparr>" "\<lambda>v. []"
              "\<lparr>the_client = AgentPassClient None (Some (PStr ''t'')), calls = []\<rparr>"
              "SendMessage ''ap_a'' ''ap_b'' ''Hi'' ''Hello''"
              "\<lparr>status_code = 204, resp_text = [], resp_json = None\<rparr>"]
  by (simp add: always_def)

text \<open>\<^verbatim>\<open>register\<close> answered with 204 and an empty body: the call ends in an error.\<close>

theorem register_no_content_raises:
  "status_code \<lparr>status_code = 204, resp_text = [], resp_json = None\<rparr> = 204 \<and>
   fst (invoke (\<lambda>v. [])
          (always \<lparr>status_code = 204, resp_text = [], resp_json = None\<rparr>)
          (Register ''a@b.com'' ''pw'' ''Agent'')
          \<lparr>the_client = AgentPassClient None None, calls = []\<rparr>) = Inl TypeError"
  by (simp add: always_def register_def client_request_def requests_request_def ok_def)

subsection \<open>C8: the base URL\<close>

text \<open>
  Claim C8. At construction the stored base URL is the given one (by default
  \<^verbatim>\<open>https://api.agentpass.space\<close>) without its trailing slashes: the given URL is the
  stored one followed by slashes only, and the stored one does not end in a slash. No
  operation changes the stored base URL, so after any session of calls on a constructed
  client it still does not end in a slash. Every call hands exactly one request to the
  transport, and its URL is the stored base URL followed by the path of the operation.
\<close>

theorem base_url_invariant:
  "(\<exists>k. (case b of None \<Rightarrow> default_base_url | Some u \<Rightarrow> u) =
          base_url (AgentPassClient b t) @ replicate k (CHR ''/'')) \<and>
   \<not> ends_with_slash (base_url (AgentPassClient b t)) \<and>
   base_url (AgentPassClient None t) = ''https://api.agentpass.space'' \<and>
   base_url (the_client (snd (invoke rpr srv c w))) = base_url (the_client w) \<and>
   \<not> ends_with_slash
       (base_url (the_client (run rpr steps \<lparr>the_client = AgentPassClient b t, calls = []\<rparr>))) \<and>
   calls (snd (invoke rpr srv c w)) = calls w @ [sent rpr srv c w] \<and>
   req_url (sent rpr srv c w) = base_url (the_client w) @ call_path c"
proof -
  have "\<exists>k. (case b of None \<Rightarrow> default_base_url | Some u \<Rightarrow> u) =
          base_url (AgentPassClient b t) @ replicate k (CHR ''/'')"
    using rstrip_decompose [of "case b of None \<Rightarrow> default_base_url | Some u \<Rightarrow> u" "CHR ''/''"]
    by (simp add: AgentPassClient_def)
  moreover have stored: "\<not> ends_with_slash (base_url (AgentPassClient b t))"
    by (simp add: AgentPassClient_def rstrip_no_trailing)
  moreover have "base_url (AgentPassClient None t) = ''https://api.agentpass.space''"
    by (simp add: AgentPassClient_def default_base_url_def rstrip_def)
  moreover have
    "\<not> ends_with_slash
         (base_url (the_client (run rpr steps \<lparr>the_client = AgentPassClient b t, calls = []\<rparr>)))"
    using stored by (simp add: run_base_url)
  ultimately show ?thesis
    by (simp add: invoke_base_url invoke_calls sent_eq request_of_def)
qed

theorem base_url_invariant_witness:
  "base_url (AgentPassClient (Some ''http://localhost:8080//'') None) = ''http://localhost:8080'' \<and>
   req_url (sent (\<lambda>v. [])
      (always \<lparr>status_code = 200, resp_text = ''{}'', resp_json = Some (PDict [])\<rparr>)
      (GetTrust ''ap_1'')
      \<lparr>the_client = AgentPassClient (Some ''http://localhost:8080//'') None, calls = []\<rparr>)
     = ''http://localhost:8080/passports/ap_1/trust''"
  using base_url_invariant
          [of "Some ''http://localhost:8080//''" None "\<lambda>v. []"
              "always \<lparr>status_code = 200, resp_text = ''{}'', resp_json = Some (PDict [])\<rparr>"
              "GetTrust ''ap_1''"
              "\<lparr>the_client = AgentPassClient (Some ''http://localhost:8080//'') None, calls = []\<rparr>"]
  by (simp add: AgentPassClient_def rstrip_def)

subsection \<open>C9: a failed register or login keeps the token\<close>

text \<open>
  Claim C9. If \<^verbatim>\<open>register\<close> or \<^verbatim>\<open>login\<close> raises \<^verbatim>\<open>AgentPassError\<close>, the stored token
  is what it was before the call; the whole client object is.
\<close>

theorem api_error_keeps_token:
  assumes "sets_token c" and "fst (invoke rpr srv c w) = Inl (AgentPassError m sc)"
  shows "token (the_client (snd (invoke rpr srv c w))) = token (the_client w) \<and>
         the_client (snd (invoke rpr srv c w)) = the_client w"
  using assms(2) by (simp add: invoke_client_error)

theorem api_error_keeps_token_witness:
  "sets_token (Login ''bad@x.com'' ''wrong'') \<and>
   token (the_client (snd (invoke (\<lambda>v. [])
          (always \<lparr>status_code = 401, resp_text = ''{\"error\": \"Invalid credentials\"}'',
                   resp_json = Some (PDict [(''error'', PStr ''Invalid credentials'')])\<rparr>)
          (Login ''bad@x.com'' ''wrong'')
          \<lparr>the_client = AgentPassClient None (Some (PStr ''old'')), calls = []\<rparr>))) = PStr ''old''"
  using api_error_keeps_token
          [of "Login ''bad@x.com'' ''wrong''" "\<lambda>v. []"
              "always \<lparr>status_code = 401, resp_text = ''{\"error\": \"Invalid credentials\"}'',
                        resp_json = Some (PDict [(''error'', PStr ''Invalid credentials'')])\<rparr>"
              "\<lparr>the_client = AgentPassClient None (Some (PStr ''old'')), calls = []\<rparr>"
              "''Invalid credentials''" "Some 401"]
  by (simp add: always_def login_def client_request_def requests_request_def ok_def
      AgentPassClient_def)

subsection \<open>C10: a success response without a token\<close>

text \<open>
  Claim C10. If \<^verbatim>\<open>register\<close> or \<^verbatim>\<open>login\<close> receives a success response whose decoded body
  \<open>data\<close> has no \<^verbatim>\<open>token\<close> field, or a 204 response (for which \<open>data\<close> is \<^verbatim>\<open>None\<close>), the
  lookup \<^verbatim>\<open>data["token"]\<close> fails: with \<^verbatim>\<open>KeyError\<close> when \<open>data\<close> is a JSON object, with
  \<^verbatim>\<open>TypeError\<close> otherwise. The error is never an \<^verbatim>\<open>AgentPassError\<close>, and the client
  object, so the stored token, is unchanged.
\<close>

theorem missing_token_field_raises:
  assumes "sets_token c"
    and "srv (request_of rpr (the_client w) c) = Inr resp" and "ok resp"
    and "status_code resp = 204 \<and> data = PNone \<or>
         status_code resp \<noteq> 204 \<and> resp_json resp = Some data"
    and "\<not> has_token data"
  shows "fst (invoke rpr srv c w) = Inl (if is_dict data then KeyError ''token'' else TypeError) \<and>
         (\<forall>m sc. fst (invoke rpr srv c w) \<noteq> Inl (AgentPassError m sc)) \<and>
         token (the_client (snd (invoke rpr srv c w))) = token (the_client w)"
proof -
  have "fst (client_request rpr srv (call_method c) (call_path c) (call_json c) (call_auth c) w) =
          Inr data"
    using assms(2,3,4) by (auto simp: request_result_success)
  then have res: "fst (invoke rpr srv c w) = py_getitem data ''token''"
    using assms(1) by (rule invoke_sets_token_result [rotated])
  have "py_getitem data ''token'' = Inl (if is_dict data then KeyError ''token'' else TypeError)"
    using assms(5) by (cases data) (simp_all split: option.splits)
  with res have r:
    "fst (invoke rpr srv c w) = Inl (if is_dict data then KeyError ''token'' else TypeError)"
    by simp
  then have "the_client (snd (invoke rpr srv c w)) = the_client w"
    by (rule invoke_client_error)
  with r show ?thesis by simp
qed

theorem missing_token_field_raises_witness:
  "\<not> has_token (PDict [(''ok'', PBool True)]) \<and>
   fst (invoke (\<lambda>v. [])
          (always \<lparr>status_code = 200, resp_text = ''{\"ok\": true}'',
                   resp_json = Some (PDict [(''ok'', PBool True)])\<rparr>)
          (Login ''a@b.com'' ''pw'')
          \<lparr>the_client = AgentPassClient None (Some (PStr ''old'')), calls = []\<rparr>)
     = Inl (KeyError ''token'') \<and>
   token (the_client (snd (invoke (\<lambda>v. [])
          (always \<lparr>status_code = 200, resp_text = ''{\"ok\": true}'',
                   resp_json = Some (PDict [(''ok'', PBool True)])\<rparr>)
          (Login ''a@b.com'' ''pw'')
          \<lparr>the_client = AgentPassClient None (Some (PStr ''old'')), calls = []\<rparr>))) = PStr ''old''"
  using missing_token_field_raises
          [of "Login ''a@b.com'' ''pw''"
              "always \<lparr>status_code = 200, resp_text = ''{\"ok\": true}'',
                        resp_json = Some (PDict [(''ok'', PBool True)])\<rparr>"
              "\<lambda>v. []"
              "\<lparr>the_client = AgentPassClient None (Some (PStr ''old'')), calls = []\<rparr>"
              "\<lparr>status_code = 200, resp_text = ''{\"ok\": true}'',
                resp_json = Some (PDict [(''ok'', PBool True)])\<rparr>"
              "PDict [(''ok'', PBool True)]"]
  by (simp add: always_def ok_def AgentPassClient_def)

end
